theory Spec2Isabelle
  imports Main "HOL-Library.Word"
begin

section \<open>The flash proxy of esp\_littlefs (src/littlefs\_proxy\_api.c)\<close>

text \<open>
  The file maps the block-device callbacks of littlefs (read, prog, erase, sync) to
  esp\_partition calls that are carried out by a proxy task. A caller composes the
  request in the global \<open>current_flash_op\<close>, notifies the task, and waits on a binary
  semaphore; the task performs the one device call and gives the semaphore.

  The embedding is sequential: the globals of the C file are the fields of a record that
  every function takes and returns, the services of FreeRTOS, of the heap and of
  esp\_partition are the fields of a \<open>platform\<close> record (they are not part of the
  sources), and the hand-over between caller and task is the composition
  notify; one iteration of the task; take. Every synchronisation call and every device
  call is logged in the field \<open>trace\<close>.
\<close>

subsection \<open>C types\<close>

text \<open>
  The target is a 32-bit ESP chip: \<open>size_t\<close> and pointers have 32 bits, and littlefs
  declares \<open>lfs_block_t\<close>, \<open>lfs_off_t\<close> and \<open>lfs_size_t\<close> as \<open>uint32_t\<close>.
  Arithmetic on them wraps modulo \<open>2 ^ 32\<close>, which is the arithmetic of \<open>32 word\<close>.
\<close>

type_synonym byte = "8 word"
type_synonym size_t = "32 word"
type_synonym lfs_block_t = "32 word"
type_synonym lfs_off_t = "32 word"
type_synonym lfs_size_t = "32 word"
type_synonym ptr = "32 word"
type_synonym esp_err_t = int

abbreviation NULL :: ptr where
  "NULL \<equiv> 0"

text \<open>
  Modelled from the spec: the constant \<open>LFS_ERR_IO\<close> of littlefs/lfs.h, which is not
  among the sources. The spec calls it the single generic I/O-class failure code, a
  negative code; littlefs gives it the value -5.
\<close>

definition LFS_ERR_IO :: int where
  "LFS_ERR_IO = - 5"

text \<open>
  Modelled from the spec: the constants \<open>ESP_OK\<close> and \<open>ESP_ERR_INVALID_ARG\<close> of
  esp\_err.h, which is not among the sources. Success is 0; the invalid-argument status
  is a non-success status (0x102 in ESP-IDF).
\<close>

definition ESP_OK :: esp_err_t where
  "ESP_OK = 0"

definition ESP_ERR_INVALID_ARG :: esp_err_t where
  "ESP_ERR_INVALID_ARG = 258"

text \<open>\<open>flash_op_type_t\<close>: the type of operation the proxy task is to perform.\<close>

datatype flash_op_type_t =
  FLASH_OP_NONE | FLASH_OP_READ | FLASH_OP_WRITE | FLASH_OP_ERASE | FLASH_OP_INVALID

text \<open>
  \<open>flash_op_t\<close>: the fields \<open>type\<close>, \<open>partition\<close>, \<open>part_off\<close>, \<open>buffer\<close> and
  \<open>size\<close> of the C struct, each prefixed with \<open>op_\<close>.
\<close>

record flash_op_t =
  op_type :: flash_op_type_t
  op_partition :: ptr
  op_part_off :: size_t
  op_buffer :: ptr
  op_size :: size_t

text \<open>
  \<open>struct lfs_config\<close>, as far as this file reads it: \<open>c->context\<close> points to an
  \<open>esp_littlefs_t\<close>, of which only \<open>partition\<close> is read, and \<open>c->block_size\<close>.
\<close>

record esp_littlefs_t =
  efs_partition :: ptr

record lfs_config =
  cfg_context :: esp_littlefs_t
  block_size :: lfs_size_t

subsection \<open>Events, faults, platform and state\<close>

text \<open>
  The calls the file makes to FreeRTOS and to esp\_partition, in the order they happen.
  A device call is logged with the arguments it is given.
\<close>

datatype event =
    SemaphoreCreateBinary
  | TaskCreate
  | TaskNotifyGive
  | TaskNotifyTake
  | SemaphoreGive
  | SemaphoreTake
  | PartitionRead ptr size_t ptr size_t
  | PartitionWrite ptr size_t ptr size_t
  | PartitionEraseRange ptr size_t size_t

fun is_device_call :: "event \<Rightarrow> bool" where
  "is_device_call (PartitionRead p a b n) = True"
| "is_device_call (PartitionWrite p a b n) = True"
| "is_device_call (PartitionEraseRange p a n) = True"
| "is_device_call e = False"

definition device_calls :: "event list \<Rightarrow> event list" where
  "device_calls tr = filter is_device_call tr"

text \<open>
  What ends a call without a return value: \<open>memcpy\<close> through a null pointer (on the
  target a LoadProhibited or StoreProhibited panic), and \<open>memcpy\<close> of more bytes than
  an object has.
\<close>

datatype fault = NullPointerAccess | BufferOverrun

text \<open>
  The services the file calls and the sources do not contain, as parameters. \<open>'o\<close> is
  the state of the operating system (heap and kernel objects), \<open>'d\<close> the state of the
  flash device.
  \<^item> \<open>heap_caps_malloc size\<close> and \<open>heap_caps_realloc p size\<close> return a pointer,
    \<open>NULL\<close> when the heap cannot satisfy the request;
  \<open>uninitialised\<close> gives the bytes found in memory that was allocated and not written.
  \<^item> \<open>esp_partition_read partition off size\<close> returns the status and the bytes it stored
    at the destination; \<open>esp_partition_write partition off data size\<close> is given the
    \<open>size\<close> bytes found at the source; \<open>esp_partition_erase_range partition off size\<close>.
  \<^item> \<open>xSemaphoreCreateBinary\<close> and \<open>xTaskCreate\<close> return the handle of the new
    kernel object, or none when the kernel has no memory for it (\<open>NULL\<close> of the
    semaphore; for the task, a status other than \<open>pdPASS\<close> and no handle written).
\<close>

record ('o, 'd) platform =
  xSemaphoreCreateBinary :: "'o \<Rightarrow> nat option \<times> 'o"
  xTaskCreate :: "'o \<Rightarrow> nat option \<times> 'o"
  heap_caps_malloc :: "size_t \<Rightarrow> 'o \<Rightarrow> ptr \<times> 'o"
  heap_caps_realloc :: "ptr \<Rightarrow> size_t \<Rightarrow> 'o \<Rightarrow> ptr \<times> 'o"
  uninitialised :: "'o \<Rightarrow> nat \<Rightarrow> byte"
  esp_partition_read :: "ptr \<Rightarrow> size_t \<Rightarrow> size_t \<Rightarrow> 'd \<Rightarrow> esp_err_t \<times> byte list \<times> 'd"
  esp_partition_write :: "ptr \<Rightarrow> size_t \<Rightarrow> byte list \<Rightarrow> size_t \<Rightarrow> 'd \<Rightarrow> esp_err_t \<times> 'd"
  esp_partition_erase_range :: "ptr \<Rightarrow> size_t \<Rightarrow> size_t \<Rightarrow> 'd \<Rightarrow> esp_err_t \<times> 'd"

text \<open>
  The static variables of the file, under their names, followed by what the C program
  keeps outside them: \<open>scratch\<close> is the content of the object \<open>flash_proxy_buf\<close> points
  to (empty while the pointer is \<open>NULL\<close>), \<open>os\<close> and \<open>flash\<close> are the states of the
  operating system and of the device, \<open>trace\<close> is the log of events.
\<close>

record ('o, 'd) state =
  operation_done_sem :: "nat option"
  flash_proxy_task_handle :: "nat option"
  current_flash_op :: flash_op_t
  flash_op_result :: int
  flash_proxy_buf :: ptr
  flash_proxy_buf_size :: size_t
  scratch :: "byte list"
  os :: 'o
  flash :: 'd
  trace :: "event list"

text \<open>The state at program start: the initialisers of the static variables.\<close>

definition initial_state :: "'o \<Rightarrow> 'd \<Rightarrow> ('o, 'd) state" where
  "initial_state o0 d0 =
     \<lparr>operation_done_sem = None,
      flash_proxy_task_handle = None,
      current_flash_op = \<lparr>op_type = FLASH_OP_NONE, op_partition = NULL, op_part_off = 0,
                          op_buffer = NULL, op_size = 0\<rparr>,
      flash_op_result = 0,
      flash_proxy_buf = NULL,
      flash_proxy_buf_size = 0,
      scratch = [],
      os = o0,
      flash = d0,
      trace = []\<rparr>"

subsection \<open>Memory\<close>

text \<open>
  \<open>memcpy dst src n\<close> on the contents of the two objects (\<open>None\<close> for a null pointer):
  the new content of the destination. Copying no byte touches no memory.
\<close>

definition memcpy :: "byte list option \<Rightarrow> byte list option \<Rightarrow> nat \<Rightarrow> fault + byte list" where
  "memcpy dst src n =
     (if n = 0 then Inr (case dst of None \<Rightarrow> [] | Some d \<Rightarrow> d)
      else case dst of
             None \<Rightarrow> Inl NullPointerAccess
           | Some d \<Rightarrow>
               (case src of
                  None \<Rightarrow> Inl NullPointerAccess
                | Some x \<Rightarrow>
                    if n \<le> length d \<and> n \<le> length x then Inr (take n x @ drop n d)
                    else Inl BufferOverrun))"

text \<open>The object \<open>flash_proxy_buf\<close> points to.\<close>

definition scratch_object :: "('o, 'd) state \<Rightarrow> byte list option" where
  "scratch_object s = (if flash_proxy_buf s = NULL then None else Some (scratch s))"

text \<open>A device that stores \<open>data\<close> at the start of an object never writes past its end.\<close>

definition store_bytes :: "byte list \<Rightarrow> byte list \<Rightarrow> byte list" where
  "store_bytes data obj = take (length obj) (data @ drop (length data) obj)"

subsection \<open>The functions of the file\<close>

text \<open>
  \<open>start_flash_proxy_task\<close>. What \<open>xSemaphoreCreateBinary\<close> returns is stored as it
  is. \<open>xTaskCreate\<close> is given the address of \<open>flash_proxy_task_handle\<close> and writes
  the handle there when it has created the task; its status is ignored, so after a
  failure the handle is what it was. The two events log the calls, not their success.
\<close>

definition start_flash_proxy_task :: "('o, 'd) platform \<Rightarrow> ('o, 'd) state \<Rightarrow> ('o, 'd) state" where
  "start_flash_proxy_task P s =
     (if flash_proxy_task_handle s = None then
        (let (sem, o1) = xSemaphoreCreateBinary P (os s);
             (h, o2) = xTaskCreate P o1
         in s\<lparr>operation_done_sem := sem,
              flash_proxy_task_handle :=
                (case h of None \<Rightarrow> flash_proxy_task_handle s | Some t \<Rightarrow> Some t),
              os := o2,
              trace := trace s @ [SemaphoreCreateBinary, TaskCreate]\<rparr>)
      else s)"

text \<open>
  One iteration of the loop of \<open>flash_proxy_task\<close>: from \<open>ulTaskNotifyTake\<close> to
  \<open>xSemaphoreGive\<close>. A device read stores into the object the request's buffer points
  to, which is the scratch buffer when the pointer is the one of \<open>flash_proxy_buf\<close>; a
  device write is given the bytes found there.
\<close>

definition flash_proxy_task :: "('o, 'd) platform \<Rightarrow> ('o, 'd) state \<Rightarrow> ('o, 'd) state" where
  "flash_proxy_task P s0 =
     (let s1 = s0\<lparr>trace := trace s0 @ [TaskNotifyTake]\<rparr>;
          s2 = s1\<lparr>flash_op_result := 0\<rparr>;
          cur = current_flash_op s2;
          valid = (op_buffer cur \<noteq> NULL \<and> op_buffer cur = flash_proxy_buf s2);
          (err, s3) =
            (case op_type cur of
               FLASH_OP_READ \<Rightarrow>
                 (let (e, data, d) = esp_partition_read P (op_partition cur) (op_part_off cur)
                                       (op_size cur) (flash s2)
                  in (e, s2\<lparr>scratch := (if valid
                                         then store_bytes (take (unat (op_size cur)) data) (scratch s2)
                                         else scratch s2),
                            flash := d,
                            trace := trace s2 @ [PartitionRead (op_partition cur) (op_part_off cur)
                                                   (op_buffer cur) (op_size cur)]\<rparr>))
             | FLASH_OP_WRITE \<Rightarrow>
                 (let (e, d) = esp_partition_write P (op_partition cur) (op_part_off cur)
                                 (if valid then take (unat (op_size cur)) (scratch s2) else [])
                                 (op_size cur) (flash s2)
                  in (e, s2\<lparr>flash := d,
                            trace := trace s2 @ [PartitionWrite (op_partition cur) (op_part_off cur)
                                                   (op_buffer cur) (op_size cur)]\<rparr>))
             | FLASH_OP_ERASE \<Rightarrow>
                 (let (e, d) = esp_partition_erase_range P (op_partition cur) (op_part_off cur)
                                 (op_size cur) (flash s2)
                  in (e, s2\<lparr>flash := d,
                            trace := trace s2 @ [PartitionEraseRange (op_partition cur)
                                                   (op_part_off cur) (op_size cur)]\<rparr>))
             | _ \<Rightarrow> (ESP_ERR_INVALID_ARG, s2));
          s4 = (if err \<noteq> 0 then s3\<lparr>flash_op_result := LFS_ERR_IO\<rparr> else s3)
      in s4\<lparr>trace := trace s4 @ [SemaphoreGive]\<rparr>)"

text \<open>
  \<open>xTaskNotifyGive(flash_proxy_task_handle); xSemaphoreTake(operation_done_sem,
  portMAX_DELAY)\<close>: the task is woken, runs one iteration and gives the semaphore the
  caller waits for.
\<close>

definition notify_and_wait :: "('o, 'd) platform \<Rightarrow> ('o, 'd) state \<Rightarrow> ('o, 'd) state" where
  "notify_and_wait P s =
     (let s1 = s\<lparr>trace := trace s @ [TaskNotifyGive]\<rparr>;
          s2 = flash_proxy_task P s1
      in s2\<lparr>trace := trace s2 @ [SemaphoreTake]\<rparr>)"

text \<open>
  \<open>ensure_flash_proxy_buf_size\<close>. The result of the allocator is stored unchecked, as
  in the source. A new object holds uninitialised bytes; a grown one keeps its content.
\<close>

definition ensure_flash_proxy_buf_size ::
  "('o, 'd) platform \<Rightarrow> size_t \<Rightarrow> ('o, 'd) state \<Rightarrow> ('o, 'd) state" where
  "ensure_flash_proxy_buf_size P sz s =
     (if flash_proxy_buf s = NULL then
        (let (p, o1) = heap_caps_malloc P sz (os s)
         in s\<lparr>flash_proxy_buf := p,
              scratch := (if p = NULL then [] else map (uninitialised P o1) [0..<unat sz]),
              os := o1,
              flash_proxy_buf_size := sz\<rparr>)
      else if flash_proxy_buf_size s < sz then
        (let (p, o1) = heap_caps_realloc P (flash_proxy_buf s) sz (os s)
         in s\<lparr>flash_proxy_buf := p,
              scratch := (if p = NULL then []
                          else take (unat sz)
                                 (scratch s @ map (uninitialised P o1) [0..<unat sz])),
              os := o1,
              flash_proxy_buf_size := sz\<rparr>)
      else s)"

text \<open>
  \<open>littlefs_api_read\<close>: the result is the returned \<open>int\<close>, the content of the
  caller's \<open>buffer\<close> after the call, and the state.
\<close>

definition littlefs_api_read ::
  "('o, 'd) platform \<Rightarrow> lfs_config \<Rightarrow> lfs_block_t \<Rightarrow> lfs_off_t \<Rightarrow> byte list \<Rightarrow> lfs_size_t \<Rightarrow>
   ('o, 'd) state \<Rightarrow> fault + (int \<times> byte list \<times> ('o, 'd) state)" where
  "littlefs_api_read P c block off buffer sz s =
     (let efs = cfg_context c;
          part_off = (block * block_size c) + off
      in if flash_proxy_task_handle s = None then Inr (LFS_ERR_IO, buffer, s)
         else
           (let s1 = ensure_flash_proxy_buf_size P sz s;
                s2 = s1\<lparr>current_flash_op :=
                          \<lparr>op_type = FLASH_OP_READ,
                           op_partition = efs_partition efs,
                           op_part_off = part_off,
                           op_buffer = flash_proxy_buf s1,
                           op_size = sz\<rparr>\<rparr>;
                s3 = notify_and_wait P s2
            in case memcpy (Some buffer) (scratch_object s3) (unat sz) of
                 Inl f \<Rightarrow> Inl f
               | Inr out \<Rightarrow> Inr (0, out, s3)))"

text \<open>\<open>littlefs_api_prog\<close>: \<open>buffer\<close> is the content of the caller's object.\<close>

definition littlefs_api_prog ::
  "('o, 'd) platform \<Rightarrow> lfs_config \<Rightarrow> lfs_block_t \<Rightarrow> lfs_off_t \<Rightarrow> byte list \<Rightarrow> lfs_size_t \<Rightarrow>
   ('o, 'd) state \<Rightarrow> fault + (int \<times> ('o, 'd) state)" where
  "littlefs_api_prog P c block off buffer sz s =
     (let efs = cfg_context c;
          part_off = (block * block_size c) + off
      in if flash_proxy_task_handle s = None then Inr (LFS_ERR_IO, s)
         else
           (let s1 = ensure_flash_proxy_buf_size P sz s
            in case memcpy (scratch_object s1) (Some buffer) (unat sz) of
                 Inl f \<Rightarrow> Inl f
               | Inr content \<Rightarrow>
                   (let s2 = s1\<lparr>scratch := content\<rparr>;
                        s3 = s2\<lparr>current_flash_op :=
                                  \<lparr>op_type = FLASH_OP_WRITE,
                                   op_partition = efs_partition efs,
                                   op_part_off = part_off,
                                   op_buffer = flash_proxy_buf s2,
                                   op_size = sz\<rparr>\<rparr>;
                        s4 = notify_and_wait P s3
                    in Inr (0, s4))))"

text \<open>\<open>littlefs_api_erase\<close>.\<close>

definition littlefs_api_erase ::
  "('o, 'd) platform \<Rightarrow> lfs_config \<Rightarrow> lfs_block_t \<Rightarrow> ('o, 'd) state \<Rightarrow>
   fault + (int \<times> ('o, 'd) state)" where
  "littlefs_api_erase P c block s =
     (let efs = cfg_context c;
          part_off = block * block_size c
      in if flash_proxy_task_handle s = None then Inr (LFS_ERR_IO, s)
         else
           (let s1 = s\<lparr>current_flash_op :=
                        \<lparr>op_type = FLASH_OP_ERASE,
                         op_partition = efs_partition efs,
                         op_part_off = part_off,
                         op_buffer = NULL,
                         op_size = block_size c\<rparr>\<rparr>;
                s2 = notify_and_wait P s1
            in Inr (0, s2)))"

text \<open>\<open>littlefs_api_sync\<close>: unnecessary for esp-idf.\<close>

definition littlefs_api_sync :: "lfs_config \<Rightarrow> int" where
  "littlefs_api_sync c = 0"

subsection \<open>The filesystem engine as caller\<close>

text \<open>
  littlefs calls the three entry points one after the other, each call returning before
  the next starts. A fault ends the sequence.
\<close>

datatype call =
    Read lfs_config lfs_block_t lfs_off_t "byte list" lfs_size_t
  | Prog lfs_config lfs_block_t lfs_off_t "byte list" lfs_size_t
  | Erase lfs_config lfs_block_t

fun perform :: "('o, 'd) platform \<Rightarrow> call \<Rightarrow> ('o, 'd) state \<Rightarrow> fault + ('o, 'd) state" where
  "perform P (Read c block off buffer sz) s =
     (case littlefs_api_read P c block off buffer sz s of
        Inl f \<Rightarrow> Inl f | Inr (r, out, s') \<Rightarrow> Inr s')"
| "perform P (Prog c block off buffer sz) s =
     (case littlefs_api_prog P c block off buffer sz s of
        Inl f \<Rightarrow> Inl f | Inr (r, s') \<Rightarrow> Inr s')"
| "perform P (Erase c block) s =
     (case littlefs_api_erase P c block s of
        Inl f \<Rightarrow> Inl f | Inr (r, s') \<Rightarrow> Inr s')"

fun run :: "('o, 'd) platform \<Rightarrow> call list \<Rightarrow> ('o, 'd) state \<Rightarrow> fault + ('o, 'd) state" where
  "run P [] s = Inr s"
| "run P (x # xs) s = (case perform P x s of Inl f \<Rightarrow> Inl f | Inr s' \<Rightarrow> run P xs s')"

subsection \<open>Properties of a platform and of a state\<close>

text \<open>A heap that satisfies every request for at least one byte.\<close>

definition heap_never_fails :: "('o, 'd) platform \<Rightarrow> bool" where
  "heap_never_fails P \<longleftrightarrow>
     (\<forall>sz k. sz \<noteq> 0 \<longrightarrow> fst (heap_caps_malloc P sz k) \<noteq> NULL)
     \<and> (\<forall>p sz k. sz \<noteq> 0 \<longrightarrow> fst (heap_caps_realloc P p sz k) \<noteq> NULL)"


text \<open>
  The object behind a non-null \<open>flash_proxy_buf\<close> has as many bytes as
  \<open>flash_proxy_buf_size\<close> records.
\<close>

definition scratch_consistent :: "('o, 'd) state \<Rightarrow> bool" where
  "scratch_consistent s \<longleftrightarrow>
     (flash_proxy_buf s \<noteq> NULL \<longrightarrow> length (scratch s) = unat (flash_proxy_buf_size s))"

subsection \<open>Concrete platforms and states\<close>

text \<open>
  A flash that is a byte array per partition, and a heap that hands out one address.
  The operating system state counts the kernel objects created.
\<close>

definition ram_read ::
  "ptr \<Rightarrow> size_t \<Rightarrow> size_t \<Rightarrow> (ptr \<Rightarrow> nat \<Rightarrow> byte) \<Rightarrow> esp_err_t \<times> byte list \<times> (ptr \<Rightarrow> nat \<Rightarrow> byte)" where
  "ram_read p off n d = (ESP_OK, map (\<lambda>i. d p (unat off + i)) [0..<unat n], d)"

definition ram_write ::
  "ptr \<Rightarrow> size_t \<Rightarrow> byte list \<Rightarrow> size_t \<Rightarrow> (ptr \<Rightarrow> nat \<Rightarrow> byte) \<Rightarrow> esp_err_t \<times> (ptr \<Rightarrow> nat \<Rightarrow> byte)" where
  "ram_write p off data n d =
     (ESP_OK, d(p := (\<lambda>a. if unat off \<le> a \<and> a < unat off + length data
                           then data ! (a - unat off) else d p a)))"

definition ram_erase_range ::
  "ptr \<Rightarrow> size_t \<Rightarrow> size_t \<Rightarrow> (ptr \<Rightarrow> nat \<Rightarrow> byte) \<Rightarrow> esp_err_t \<times> (ptr \<Rightarrow> nat \<Rightarrow> byte)" where
  "ram_erase_range p off n d =
     (ESP_OK, d(p := (\<lambda>a. if unat off \<le> a \<and> a < unat off + unat n then 255 else d p a)))"

definition ram_platform :: "(nat, ptr \<Rightarrow> nat \<Rightarrow> byte) platform" where
  "ram_platform =
     \<lparr>xSemaphoreCreateBinary = (\<lambda>k. (Some (Suc k), Suc k)),
      xTaskCreate = (\<lambda>k. (Some (Suc k), Suc k)),
      heap_caps_malloc = (\<lambda>sz k. (if sz = 0 then NULL else 0x3FFB0000, k)),
      heap_caps_realloc = (\<lambda>p sz k. (if sz = 0 then NULL else 0x3FFB0000, k)),
      uninitialised = (\<lambda>k i. 0),
      esp_partition_read = ram_read,
      esp_partition_write = ram_write,
      esp_partition_erase_range = ram_erase_range\<rparr>"

text \<open>The generic failure status of esp\_err.h, for a device whose calls all fail.\<close>

definition ESP_FAIL :: esp_err_t where
  "ESP_FAIL = - 1"

definition failing_flash_platform :: "(nat, ptr \<Rightarrow> nat \<Rightarrow> byte) platform" where
  "failing_flash_platform =
     ram_platform\<lparr>esp_partition_read := (\<lambda>p off n d. (ESP_FAIL, [], d)),
                  esp_partition_write := (\<lambda>p off data n d. (ESP_FAIL, d)),
                  esp_partition_erase_range := (\<lambda>p off n d. (ESP_FAIL, d))\<rparr>"

text \<open>A kernel that has no memory for a task before its third object.\<close>

definition flaky_task_platform :: "(nat, ptr \<Rightarrow> nat \<Rightarrow> byte) platform" where
  "flaky_task_platform =
     ram_platform\<lparr>xTaskCreate := (\<lambda>k. (if k < 2 then None else Some (Suc k), Suc k))\<rparr>"

text \<open>A heap that is exhausted.\<close>

definition no_heap_platform :: "(nat, ptr \<Rightarrow> nat \<Rightarrow> byte) platform" where
  "no_heap_platform =
     ram_platform\<lparr>heap_caps_malloc := (\<lambda>sz k. (NULL, k)),
                  heap_caps_realloc := (\<lambda>p sz k. (NULL, k))\<rparr>"

definition erased_flash :: "ptr \<Rightarrow> nat \<Rightarrow> byte" where
  "erased_flash p a = 255"

text \<open>A mount on the partition at 0x10000 with blocks of 4096 bytes.\<close>

definition cfg0 :: lfs_config where
  "cfg0 = \<lparr>cfg_context = \<lparr>efs_partition = 0x10000\<rparr>, block_size = 4096\<rparr>"

definition boot :: "(nat, ptr \<Rightarrow> nat \<Rightarrow> byte) state" where
  "boot = initial_state 0 erased_flash"

definition started :: "(nat, ptr \<Rightarrow> nat \<Rightarrow> byte) state" where
  "started = start_flash_proxy_task ram_platform boot"

text \<open>The started state with a request of kind \<open>k\<close> in the slot.\<close>

definition request :: "flash_op_type_t \<Rightarrow> (nat, ptr \<Rightarrow> nat \<Rightarrow> byte) state" where
  "request k =
     started\<lparr>current_flash_op :=
               \<lparr>op_type = k, op_partition = 0x10000, op_part_off = 20480, op_buffer = NULL,
                op_size = 4096\<rparr>\<rparr>"

section \<open>Auxiliary facts\<close>

subsection \<open>Memory\<close>

lemma length_store_bytes: "length (store_bytes data obj) = length obj"
  by (simp add: store_bytes_def)

lemma store_bytes_prefix:
  "length data \<le> length obj \<Longrightarrow> take (length data) (store_bytes data obj) = data"
  by (simp add: store_bytes_def)

lemma memcpy_null_src: "memcpy dst None n = Inr out \<Longrightarrow> n = 0"
  by (auto simp add: memcpy_def split: option.splits if_splits)

lemma memcpy_null_dst: "memcpy None src n = Inr out \<Longrightarrow> n = 0"
  by (auto simp add: memcpy_def split: option.splits if_splits)

lemma memcpy_length:
  "memcpy (Some d) src n = Inr out \<Longrightarrow> length out = length d"
  by (auto simp add: memcpy_def split: option.splits if_splits)

lemma memcpy_ok:
  "n \<le> length d \<Longrightarrow> n \<le> length x \<Longrightarrow> memcpy (Some d) (Some x) n = Inr (take n x @ drop n d)"
  by (simp add: memcpy_def)

subsection \<open>One iteration of the proxy task\<close>

lemma flash_proxy_task_read:
  "op_type (current_flash_op s) = FLASH_OP_READ \<Longrightarrow>
   trace (flash_proxy_task P s) =
     trace s @ [TaskNotifyTake,
                PartitionRead (op_partition (current_flash_op s)) (op_part_off (current_flash_op s))
                  (op_buffer (current_flash_op s)) (op_size (current_flash_op s)),
                SemaphoreGive]
   \<and> flash_op_result (flash_proxy_task P s) =
       (if fst (esp_partition_read P (op_partition (current_flash_op s))
                  (op_part_off (current_flash_op s)) (op_size (current_flash_op s)) (flash s)) \<noteq> 0
        then LFS_ERR_IO else 0)"
  by (simp add: flash_proxy_task_def Let_def split_beta)

lemma flash_proxy_task_write:
  "op_type (current_flash_op s) = FLASH_OP_WRITE \<Longrightarrow>
   trace (flash_proxy_task P s) =
     trace s @ [TaskNotifyTake,
                PartitionWrite (op_partition (current_flash_op s)) (op_part_off (current_flash_op s))
                  (op_buffer (current_flash_op s)) (op_size (current_flash_op s)),
                SemaphoreGive]
   \<and> flash_op_result (flash_proxy_task P s) =
       (if fst (esp_partition_write P (op_partition (current_flash_op s))
                  (op_part_off (current_flash_op s))
                  (if op_buffer (current_flash_op s) \<noteq> NULL
                      \<and> op_buffer (current_flash_op s) = flash_proxy_buf s
                   then take (unat (op_size (current_flash_op s))) (scratch s) else [])
                  (op_size (current_flash_op s)) (flash s)) \<noteq> 0
        then LFS_ERR_IO else 0)"
  by (simp add: flash_proxy_task_def Let_def split_beta)

lemma flash_proxy_task_erase:
  "op_type (current_flash_op s) = FLASH_OP_ERASE \<Longrightarrow>
   trace (flash_proxy_task P s) =
     trace s @ [TaskNotifyTake,
                PartitionEraseRange (op_partition (current_flash_op s))
                  (op_part_off (current_flash_op s)) (op_size (current_flash_op s)),
                SemaphoreGive]
   \<and> flash_op_result (flash_proxy_task P s) =
       (if fst (esp_partition_erase_range P (op_partition (current_flash_op s))
                  (op_part_off (current_flash_op s)) (op_size (current_flash_op s)) (flash s)) \<noteq> 0
        then LFS_ERR_IO else 0)"
  by (simp add: flash_proxy_task_def Let_def split_beta)

lemma flash_proxy_task_other:
  "op_type (current_flash_op s) \<notin> {FLASH_OP_READ, FLASH_OP_WRITE, FLASH_OP_ERASE} \<Longrightarrow>
   trace (flash_proxy_task P s) = trace s @ [TaskNotifyTake, SemaphoreGive]
   \<and> flash_op_result (flash_proxy_task P s) = LFS_ERR_IO
   \<and> flash (flash_proxy_task P s) = flash s"
  by (cases "op_type (current_flash_op s)")
     (simp_all add: flash_proxy_task_def Let_def ESP_ERR_INVALID_ARG_def)

lemma flash_proxy_task_frame:
  "flash_proxy_task_handle (flash_proxy_task P s) = flash_proxy_task_handle s
   \<and> operation_done_sem (flash_proxy_task P s) = operation_done_sem s
   \<and> current_flash_op (flash_proxy_task P s) = current_flash_op s
   \<and> flash_proxy_buf (flash_proxy_task P s) = flash_proxy_buf s
   \<and> flash_proxy_buf_size (flash_proxy_task P s) = flash_proxy_buf_size s
   \<and> os (flash_proxy_task P s) = os s
   \<and> length (scratch (flash_proxy_task P s)) = length (scratch s)"
  by (cases "op_type (current_flash_op s)")
     (simp_all add: flash_proxy_task_def Let_def length_store_bytes split_beta)

lemma flash_proxy_task_write_state:
  assumes "op_type (current_flash_op s) = FLASH_OP_WRITE"
  shows "flash (flash_proxy_task P s) =
           snd (esp_partition_write P (op_partition (current_flash_op s))
                  (op_part_off (current_flash_op s))
                  (if op_buffer (current_flash_op s) \<noteq> NULL
                      \<and> op_buffer (current_flash_op s) = flash_proxy_buf s
                   then take (unat (op_size (current_flash_op s))) (scratch s) else [])
                  (op_size (current_flash_op s)) (flash s))"
    and "scratch (flash_proxy_task P s) = scratch s"
  using assms by (simp_all add: flash_proxy_task_def Let_def split_beta)

lemma flash_proxy_task_read_state:
  assumes "op_type (current_flash_op s) = FLASH_OP_READ"
  shows "flash (flash_proxy_task P s) =
           snd (snd (esp_partition_read P (op_partition (current_flash_op s))
                  (op_part_off (current_flash_op s)) (op_size (current_flash_op s)) (flash s)))"
    and "scratch (flash_proxy_task P s) =
           (if op_buffer (current_flash_op s) \<noteq> NULL
               \<and> op_buffer (current_flash_op s) = flash_proxy_buf s
            then store_bytes
                   (take (unat (op_size (current_flash_op s)))
                      (fst (snd (esp_partition_read P (op_partition (current_flash_op s))
                         (op_part_off (current_flash_op s)) (op_size (current_flash_op s))
                         (flash s)))))
                   (scratch s)
            else scratch s)"
  using assms by (simp_all add: flash_proxy_task_def Let_def split_beta)

lemma notify_and_wait_frame:
  "flash_proxy_task_handle (notify_and_wait P s) = flash_proxy_task_handle s
   \<and> operation_done_sem (notify_and_wait P s) = operation_done_sem s
   \<and> current_flash_op (notify_and_wait P s) = current_flash_op s
   \<and> flash_proxy_buf (notify_and_wait P s) = flash_proxy_buf s
   \<and> flash_proxy_buf_size (notify_and_wait P s) = flash_proxy_buf_size s
   \<and> os (notify_and_wait P s) = os s
   \<and> length (scratch (notify_and_wait P s)) = length (scratch s)"
  using flash_proxy_task_frame [of P "s\<lparr>trace := trace s @ [TaskNotifyGive]\<rparr>"]
  by (simp add: notify_and_wait_def Let_def)


subsection \<open>The scratch buffer\<close>

lemma ensure_frame:
  "flash_proxy_task_handle (ensure_flash_proxy_buf_size P sz s) = flash_proxy_task_handle s
   \<and> operation_done_sem (ensure_flash_proxy_buf_size P sz s) = operation_done_sem s
   \<and> current_flash_op (ensure_flash_proxy_buf_size P sz s) = current_flash_op s
   \<and> flash_op_result (ensure_flash_proxy_buf_size P sz s) = flash_op_result s
   \<and> flash (ensure_flash_proxy_buf_size P sz s) = flash s
   \<and> trace (ensure_flash_proxy_buf_size P sz s) = trace s"
  by (simp add: ensure_flash_proxy_buf_size_def Let_def split_beta)

lemma ensure_capacity: "sz \<le> flash_proxy_buf_size (ensure_flash_proxy_buf_size P sz s)"
  by (simp add: ensure_flash_proxy_buf_size_def Let_def split_beta not_less)

lemma ensure_unchanged:
  "flash_proxy_buf s \<noteq> NULL \<Longrightarrow> sz \<le> flash_proxy_buf_size s \<Longrightarrow>
   ensure_flash_proxy_buf_size P sz s = s"
  by (simp add: ensure_flash_proxy_buf_size_def)

lemma ensure_grows:
  "flash_proxy_buf s = NULL \<longrightarrow> flash_proxy_buf_size s = 0 \<Longrightarrow>
   flash_proxy_buf_size s \<le> flash_proxy_buf_size (ensure_flash_proxy_buf_size P sz s)"
  by (auto simp add: ensure_flash_proxy_buf_size_def Let_def split_beta)

lemma ensure_zero:
  "flash_proxy_buf s = NULL \<longrightarrow> flash_proxy_buf_size s = 0 \<Longrightarrow>
   flash_proxy_buf (ensure_flash_proxy_buf_size P 0 s) = NULL \<longrightarrow>
   flash_proxy_buf_size (ensure_flash_proxy_buf_size P 0 s) = 0"
  by (auto simp add: ensure_flash_proxy_buf_size_def Let_def split_beta)

lemma ensure_length:
  "flash_proxy_buf s \<noteq> NULL \<longrightarrow> length (scratch s) = unat (flash_proxy_buf_size s) \<Longrightarrow>
   flash_proxy_buf (ensure_flash_proxy_buf_size P sz s) \<noteq> NULL \<longrightarrow>
   length (scratch (ensure_flash_proxy_buf_size P sz s))
     = unat (flash_proxy_buf_size (ensure_flash_proxy_buf_size P sz s))"
  by (auto simp add: ensure_flash_proxy_buf_size_def Let_def split_beta)

lemma ensure_non_null:
  "heap_never_fails P \<Longrightarrow> sz \<noteq> 0 \<Longrightarrow>
   flash_proxy_buf (ensure_flash_proxy_buf_size P sz s) \<noteq> NULL"
  by (simp add: heap_never_fails_def ensure_flash_proxy_buf_size_def Let_def split_beta)

lemma ensure_consistent:
  "scratch_consistent s \<Longrightarrow> scratch_consistent (ensure_flash_proxy_buf_size P sz s)"
  using ensure_length [of s P sz] by (simp add: scratch_consistent_def)

lemma ensure_room:
  assumes "scratch_consistent s" and "flash_proxy_buf (ensure_flash_proxy_buf_size P sz s) \<noteq> NULL"
  shows "unat sz \<le> length (scratch (ensure_flash_proxy_buf_size P sz s))"
proof -
  have "length (scratch (ensure_flash_proxy_buf_size P sz s))
          = unat (flash_proxy_buf_size (ensure_flash_proxy_buf_size P sz s))"
    using ensure_consistent [OF assms(1), of P sz] assms(2) by (simp add: scratch_consistent_def)
  then show ?thesis
    using ensure_capacity [of sz P s] by (simp add: word_le_nat_alt)
qed

subsection \<open>The entry points\<close>

lemma read_not_started:
  "flash_proxy_task_handle s = None \<Longrightarrow>
   littlefs_api_read P c block off buffer sz s = Inr (LFS_ERR_IO, buffer, s)"
  by (simp add: littlefs_api_read_def)

lemma prog_not_started:
  "flash_proxy_task_handle s = None \<Longrightarrow>
   littlefs_api_prog P c block off buffer sz s = Inr (LFS_ERR_IO, s)"
  by (simp add: littlefs_api_prog_def)

lemma erase_not_started:
  "flash_proxy_task_handle s = None \<Longrightarrow>
   littlefs_api_erase P c block s = Inr (LFS_ERR_IO, s)"
  by (simp add: littlefs_api_erase_def)

lemma read_started:
  assumes "flash_proxy_task_handle s \<noteq> None"
    and "littlefs_api_read P c block off buffer sz s = Inr (r, out, s')"
  shows "r = 0"
    and "current_flash_op s' =
           \<lparr>op_type = FLASH_OP_READ, op_partition = efs_partition (cfg_context c),
            op_part_off = block * block_size c + off,
            op_buffer = flash_proxy_buf s', op_size = sz\<rparr>"
    and "flash_proxy_buf s' = flash_proxy_buf (ensure_flash_proxy_buf_size P sz s)"
    and "flash_proxy_buf_size s' = flash_proxy_buf_size (ensure_flash_proxy_buf_size P sz s)"
    and "sz = 0 \<or> flash_proxy_buf s' \<noteq> NULL"
    and "flash_proxy_task_handle s' = flash_proxy_task_handle s"
  using assms
  by (auto simp add: littlefs_api_read_def Let_def notify_and_wait_frame ensure_frame scratch_object_def
      unat_eq_0 dest: memcpy_null_src memcpy_null_dst split: sum.splits if_splits)

lemma prog_started:
  assumes "flash_proxy_task_handle s \<noteq> None"
    and "littlefs_api_prog P c block off buffer sz s = Inr (r, s')"
  shows "r = 0"
    and "current_flash_op s' =
           \<lparr>op_type = FLASH_OP_WRITE, op_partition = efs_partition (cfg_context c),
            op_part_off = block * block_size c + off,
            op_buffer = flash_proxy_buf s', op_size = sz\<rparr>"
    and "flash_proxy_buf s' = flash_proxy_buf (ensure_flash_proxy_buf_size P sz s)"
    and "flash_proxy_buf_size s' = flash_proxy_buf_size (ensure_flash_proxy_buf_size P sz s)"
    and "sz = 0 \<or> flash_proxy_buf s' \<noteq> NULL"
    and "flash_proxy_task_handle s' = flash_proxy_task_handle s"
  using assms
  by (auto simp add: littlefs_api_prog_def Let_def notify_and_wait_frame ensure_frame scratch_object_def
      unat_eq_0 dest: memcpy_null_src memcpy_null_dst split: sum.splits if_splits)

lemma erase_started:
  assumes "flash_proxy_task_handle s \<noteq> None"
  shows "littlefs_api_erase P c block s =
           Inr (0, notify_and_wait P
                     (s\<lparr>current_flash_op :=
                          \<lparr>op_type = FLASH_OP_ERASE, op_partition = efs_partition (cfg_context c),
                           op_part_off = block * block_size c, op_buffer = NULL,
                           op_size = block_size c\<rparr>\<rparr>))"
  using assms by (auto simp add: littlefs_api_erase_def Let_def)

lemma prog_result:
  assumes st: "flash_proxy_task_handle s \<noteq> None"
    and con: "scratch_consistent s"
    and heap: "heap_never_fails P"
    and len: "unat sz \<le> length buffer"
  shows "\<exists>s'. littlefs_api_prog P c block off buffer sz s = Inr (0, s')
           \<and> flash s' = snd (esp_partition_write P (efs_partition (cfg_context c))
                               (block * block_size c + off) (take (unat sz) buffer) sz (flash s))
           \<and> flash_op_result s' =
               (if fst (esp_partition_write P (efs_partition (cfg_context c))
                          (block * block_size c + off) (take (unat sz) buffer) sz (flash s)) \<noteq> 0
                then LFS_ERR_IO else 0)
           \<and> flash_proxy_task_handle s' = flash_proxy_task_handle s
           \<and> scratch_consistent s'
           \<and> (sz \<noteq> 0 \<longrightarrow> flash_proxy_buf s' \<noteq> NULL)
           \<and> sz \<le> flash_proxy_buf_size s'"
proof -
  let ?e = "ensure_flash_proxy_buf_size P sz s"
  let ?n = "unat sz"
  show ?thesis
  proof (cases "sz = 0")
    case True
    then show ?thesis
      using st ensure_consistent [OF con, of P 0]
      by (auto simp add: littlefs_api_prog_def Let_def memcpy_def scratch_object_def
          notify_and_wait_def flash_proxy_task_write flash_proxy_task_write_state
          flash_proxy_task_frame ensure_frame scratch_consistent_def)
  next
    case False
    then have nn: "flash_proxy_buf ?e \<noteq> NULL"
      using ensure_non_null [OF heap] by simp
    have room: "?n \<le> length (scratch ?e)"
      using ensure_room [OF con nn] .
    have n0: "?n \<noteq> 0"
      using False by (simp add: unat_eq_0)
    have cp: "memcpy (scratch_object ?e) (Some buffer) ?n
                = Inr (take ?n buffer @ drop ?n (scratch ?e))"
      using nn room len by (simp add: scratch_object_def memcpy_ok)
    have tk: "take ?n (take ?n buffer @ drop ?n (scratch ?e)) = take ?n buffer"
      using len by simp
    have ln: "length (take ?n buffer @ drop ?n (scratch ?e)) = length (scratch ?e)"
      using len room by simp
    show ?thesis
      using st nn cp tk ln ensure_consistent [OF con, of P sz] ensure_capacity [of sz P s]
      by (auto simp add: littlefs_api_prog_def Let_def
          notify_and_wait_def flash_proxy_task_write flash_proxy_task_write_state
          flash_proxy_task_frame ensure_frame scratch_consistent_def)
  qed
qed

lemma read_result:
  assumes st: "flash_proxy_task_handle s \<noteq> None"
    and con: "scratch_consistent s"
    and heap: "heap_never_fails P"
    and len: "unat sz \<le> length buffer"
    and dev: "length (fst (snd (esp_partition_read P (efs_partition (cfg_context c))
                (block * block_size c + off) sz (flash s)))) = unat sz"
  shows "\<exists>s'. littlefs_api_read P c block off buffer sz s =
                 Inr (0, fst (snd (esp_partition_read P (efs_partition (cfg_context c))
                                (block * block_size c + off) sz (flash s)))
                         @ drop (unat sz) buffer, s')
           \<and> flash_op_result s' =
               (if fst (esp_partition_read P (efs_partition (cfg_context c))
                          (block * block_size c + off) sz (flash s)) \<noteq> 0
                then LFS_ERR_IO else 0)
           \<and> flash_proxy_task_handle s' = flash_proxy_task_handle s
           \<and> scratch_consistent s'"
proof -
  let ?e = "ensure_flash_proxy_buf_size P sz s"
  let ?n = "unat sz"
  let ?data = "fst (snd (esp_partition_read P (efs_partition (cfg_context c))
                 (block * block_size c + off) sz (flash s)))"
  show ?thesis
  proof (cases "sz = 0")
    case True
    then show ?thesis
      using st dev ensure_consistent [OF con, of P 0]
      by (auto simp add: littlefs_api_read_def Let_def memcpy_def scratch_object_def
          notify_and_wait_def flash_proxy_task_read flash_proxy_task_read_state
          flash_proxy_task_frame ensure_frame scratch_consistent_def length_store_bytes)
  next
    case False
    then have nn: "flash_proxy_buf ?e \<noteq> NULL"
      using ensure_non_null [OF heap] by simp
    have room: "?n \<le> length (scratch ?e)"
      using ensure_room [OF con nn] .
    have pre: "take ?n (store_bytes (take ?n ?data) (scratch ?e)) = ?data"
      using store_bytes_prefix [of "take ?n ?data" "scratch ?e"] dev room by simp
    have cp: "memcpy (Some buffer) (Some (store_bytes (take ?n ?data) (scratch ?e))) ?n
                = Inr (?data @ drop ?n buffer)"
      using room len pre by (simp add: memcpy_ok length_store_bytes)
    show ?thesis
      using st nn cp ensure_consistent [OF con, of P sz]
      by (auto simp add: littlefs_api_read_def Let_def scratch_object_def
          notify_and_wait_def flash_proxy_task_read flash_proxy_task_read_state
          flash_proxy_task_frame ensure_frame scratch_consistent_def length_store_bytes)
  qed
qed

lemma read_completes:
  assumes st: "flash_proxy_task_handle s \<noteq> None"
    and con: "scratch_consistent s"
    and heap: "heap_never_fails P"
    and len: "unat sz \<le> length buffer"
  shows "\<exists>out s'. littlefs_api_read P c block off buffer sz s = Inr (0, out, s')
           \<and> flash_op_result s' =
               (if fst (esp_partition_read P (efs_partition (cfg_context c))
                          (block * block_size c + off) sz (flash s)) \<noteq> 0
                then LFS_ERR_IO else 0)"
proof -
  let ?e = "ensure_flash_proxy_buf_size P sz s"
  let ?n = "unat sz"
  show ?thesis
  proof (cases "sz = 0")
    case True
    then show ?thesis
      using st
      by (auto simp add: littlefs_api_read_def Let_def memcpy_def scratch_object_def
          notify_and_wait_def flash_proxy_task_read flash_proxy_task_frame ensure_frame)
  next
    case False
    then have nn: "flash_proxy_buf ?e \<noteq> NULL"
      using ensure_non_null [OF heap] by simp
    have room: "?n \<le> length (scratch ?e)"
      using ensure_room [OF con nn] .
    have cp: "memcpy (Some buffer) (Some (store_bytes x (scratch ?e))) ?n
                = Inr (take ?n (store_bytes x (scratch ?e)) @ drop ?n buffer)" for x
      using room len by (simp add: memcpy_ok length_store_bytes)
    show ?thesis
      using st nn cp
      by (auto simp add: littlefs_api_read_def Let_def scratch_object_def
          notify_and_wait_def flash_proxy_task_read flash_proxy_task_read_state
          flash_proxy_task_frame ensure_frame)
  qed
qed

lemma erase_result:
  assumes "flash_proxy_task_handle s \<noteq> None"
  shows "\<exists>s'. littlefs_api_erase P c block s = Inr (0, s')
           \<and> flash_op_result s' =
               (if fst (esp_partition_erase_range P (efs_partition (cfg_context c))
                          (block * block_size c) (block_size c) (flash s)) \<noteq> 0
                then LFS_ERR_IO else 0)"
  by (simp add: erase_started [OF assms] notify_and_wait_def Let_def flash_proxy_task_erase)

lemma read_null_fault:
  assumes "flash_proxy_task_handle s \<noteq> None"
    and "flash_proxy_buf (ensure_flash_proxy_buf_size P sz s) = NULL"
    and "sz \<noteq> 0"
  shows "littlefs_api_read P c block off buffer sz s = Inl NullPointerAccess"
  using assms
  by (auto simp add: littlefs_api_read_def Let_def scratch_object_def memcpy_def
      notify_and_wait_frame unat_eq_0)

lemma prog_null_fault:
  assumes "flash_proxy_task_handle s \<noteq> None"
    and "flash_proxy_buf (ensure_flash_proxy_buf_size P sz s) = NULL"
    and "sz \<noteq> 0"
  shows "littlefs_api_prog P c block off buffer sz s = Inl NullPointerAccess"
  using assms
  by (auto simp add: littlefs_api_prog_def Let_def scratch_object_def memcpy_def unat_eq_0)

subsection \<open>The invariants of the scratch buffer\<close>

text \<open>
  \<open>scratch_consistent\<close> holds at program start and after every call that returns, and so
  does "a null pointer has capacity 0": a call that stores a null pointer for a request
  of at least one byte ends in the fault of its \<open>memcpy\<close>.
\<close>

lemma initial_consistent: "scratch_consistent (initial_state o0 d0)"
  by (simp add: scratch_consistent_def initial_state_def)

lemma start_consistent:
  "scratch_consistent s \<Longrightarrow> scratch_consistent (start_flash_proxy_task P s)"
  by (simp add: scratch_consistent_def start_flash_proxy_task_def Let_def split_beta)

lemma perform_consistent:
  assumes con: "scratch_consistent s" and ret: "perform P x s = Inr s'"
  shows "scratch_consistent s'"
proof (cases "flash_proxy_task_handle s = None")
  case True
  then have "s' = s"
    using ret
    by (cases x) (simp_all add: read_not_started prog_not_started erase_not_started)
  then show ?thesis
    using con by simp
next
  case st: False
  show ?thesis
  proof (cases x)
    case (Read c block off buffer sz)
    then show ?thesis
      using ret st ensure_consistent [OF con, of P sz]
      by (auto simp add: littlefs_api_read_def Let_def scratch_consistent_def
          notify_and_wait_frame split: sum.splits)
  next
    case (Prog c block off buffer sz)
    then show ?thesis
      using ret st ensure_consistent [OF con, of P sz]
      by (auto simp add: littlefs_api_prog_def Let_def scratch_consistent_def
          scratch_object_def notify_and_wait_frame dest!: memcpy_length split: sum.splits if_splits)
  next
    case (Erase c block)
    then show ?thesis
      using ret st con
      by (auto simp add: littlefs_api_erase_def Let_def scratch_consistent_def
          notify_and_wait_frame)
  qed
qed

lemma perform_capacity:
  assumes inv: "flash_proxy_buf s = NULL \<longrightarrow> flash_proxy_buf_size s = 0"
    and ret: "perform P x s = Inr s'"
  shows "flash_proxy_buf_size s \<le> flash_proxy_buf_size s'
       \<and> (flash_proxy_buf s' = NULL \<longrightarrow> flash_proxy_buf_size s' = 0)"
proof (cases "flash_proxy_task_handle s = None")
  case True
  then have "s' = s"
    using ret
    by (cases x) (simp_all add: read_not_started prog_not_started erase_not_started)
  then show ?thesis
    using inv by simp
next
  case st: False
  show ?thesis
  proof (cases x)
    case (Read c block off buffer sz)
    then obtain r out where
      "littlefs_api_read P c block off buffer sz s = Inr (r, out, s')"
      using ret by (auto split: sum.splits)
    then show ?thesis
      using read_started(3,4,5) [OF st, of P c block off buffer sz r out s']
        ensure_grows [OF inv, of P sz] ensure_zero [OF inv, of P]
      by auto
  next
    case (Prog c block off buffer sz)
    then obtain r where
      "littlefs_api_prog P c block off buffer sz s = Inr (r, s')"
      using ret by (auto split: sum.splits)
    then show ?thesis
      using prog_started(3,4,5) [OF st, of P c block off buffer sz r s']
        ensure_grows [OF inv, of P sz] ensure_zero [OF inv, of P]
      by auto
  next
    case (Erase c block)
    then show ?thesis
      using ret inv erase_started [OF st, of P c block]
        notify_and_wait_frame [of P "s\<lparr>current_flash_op :=
                          \<lparr>op_type = FLASH_OP_ERASE, op_partition = efs_partition (cfg_context c),
                           op_part_off = block * block_size c, op_buffer = NULL,
                           op_size = block_size c\<rparr>\<rparr>"]
      by auto
  qed
qed

lemma run_capacity:
  "flash_proxy_buf s = NULL \<longrightarrow> flash_proxy_buf_size s = 0 \<Longrightarrow> run P xs s = Inr s' \<Longrightarrow>
   flash_proxy_buf_size s \<le> flash_proxy_buf_size s'
   \<and> (flash_proxy_buf s' = NULL \<longrightarrow> flash_proxy_buf_size s' = 0)"
proof (induction xs arbitrary: s)
  case Nil
  then show ?case by simp
next
  case (Cons x xs)
  from Cons.prems(2) obtain s1 where p: "perform P x s = Inr s1" and r: "run P xs s1 = Inr s'"
    by (auto split: sum.splits)
  have s1: "flash_proxy_buf_size s \<le> flash_proxy_buf_size s1"
    and inv1: "flash_proxy_buf s1 = NULL \<longrightarrow> flash_proxy_buf_size s1 = 0"
    using perform_capacity [OF Cons.prems(1) p] by simp_all
  have "flash_proxy_buf_size s1 \<le> flash_proxy_buf_size s'
       \<and> (flash_proxy_buf s' = NULL \<longrightarrow> flash_proxy_buf_size s' = 0)"
    using Cons.IH [OF inv1 r] .
  then show ?case
    using s1 by auto
qed

subsection \<open>Starting the task, and offsets without overflow\<close>

lemma start_when_started:
  "flash_proxy_task_handle s \<noteq> None \<Longrightarrow> start_flash_proxy_task P s = s"
  by (auto simp add: start_flash_proxy_task_def)

lemma start_result:
  assumes "flash_proxy_task_handle s = None"
    and "xSemaphoreCreateBinary P (os s) = (sem, o1)"
    and "xTaskCreate P o1 = (h, o2)"
  shows "start_flash_proxy_task P s =
           s\<lparr>operation_done_sem := sem, flash_proxy_task_handle := h, os := o2,
             trace := trace s @ [SemaphoreCreateBinary, TaskCreate]\<rparr>"
  using assms by (simp add: start_flash_proxy_task_def split: option.splits)

lemma start_repeated:
  assumes set: "flash_proxy_task_handle (start_flash_proxy_task P s) \<noteq> None"
  shows "(start_flash_proxy_task P ^^ Suc n) s = start_flash_proxy_task P s"
proof (induction n)
  case 0
  show ?case by simp
next
  case (Suc n)
  have "(start_flash_proxy_task P ^^ Suc (Suc n)) s
          = start_flash_proxy_task P ((start_flash_proxy_task P ^^ Suc n) s)"
    by simp
  also have "\<dots> = start_flash_proxy_task P (start_flash_proxy_task P s)"
    using Suc.IH by simp
  also have "\<dots> = start_flash_proxy_task P s"
    using start_when_started [OF set] .
  finally show ?case .
qed

lemma no_overflow_offset:
  fixes block bs off :: "32 word"
  assumes "unat block * unat bs + unat off < 2 ^ 32"
  shows "unat (block * bs + off) = unat block * unat bs + unat off"
proof -
  have "unat block * unat bs < 2 ^ LENGTH(32)"
    using assms by simp
  then have m: "unat (block * bs) = unat block * unat bs"
    by (rule unat_mult_lem [THEN iffD1])
  have "unat (block * bs) + unat off < 2 ^ LENGTH(32)"
    using assms m by simp
  then have "unat (block * bs + off) = unat (block * bs) + unat off"
    by (rule unat_add_lem [THEN iffD1])
  then show ?thesis
    using m by simp
qed

subsection \<open>The concrete platforms\<close>

lemma ram_heap_never_fails: "heap_never_fails ram_platform"
  by (simp add: heap_never_fails_def ram_platform_def)

lemma failing_flash_heap_never_fails: "heap_never_fails failing_flash_platform"
  by (simp add: heap_never_fails_def failing_flash_platform_def ram_platform_def)


lemma started_handle: "flash_proxy_task_handle started \<noteq> None"
  by (simp add: started_def start_flash_proxy_task_def boot_def initial_state_def
      ram_platform_def)

lemma started_consistent: "scratch_consistent started"
  by (simp add: scratch_consistent_def started_def start_flash_proxy_task_def boot_def
      initial_state_def ram_platform_def)

lemma started_trace: "trace started = [SemaphoreCreateBinary, TaskCreate]"
  by (simp add: started_def start_flash_proxy_task_def boot_def
      initial_state_def ram_platform_def)

lemma started_buf: "flash_proxy_buf started = NULL" "flash_proxy_buf_size started = 0"
  by (simp_all add: started_def start_flash_proxy_task_def boot_def initial_state_def
      ram_platform_def)

section \<open>The claims\<close>

text \<open>
  C1. Claim: when the device call of a program call returns a non-success status, the
  program entry point returns the I/O-class failure, and likewise read and erase.
  The code does not: the task records \<open>LFS_ERR_IO\<close> in \<open>flash_op_result\<close>, and the entry
  points end in \<open>return 0\<close> without reading it. On a device whose calls all fail, the
  three entry points return 0 while \<open>flash_op_result\<close> holds \<open>LFS_ERR_IO\<close>.
\<close>

theorem device_failure_not_reported:
  "fst (esp_partition_write failing_flash_platform 0x10000 8202 (replicate 16 170) 16
          erased_flash) \<noteq> ESP_OK
   \<and> (\<exists>s'. littlefs_api_prog failing_flash_platform cfg0 2 10 (replicate 16 170) 16 started
              = Inr (0, s')
          \<and> flash_op_result s' = LFS_ERR_IO)
   \<and> (\<exists>out s'. littlefs_api_read failing_flash_platform cfg0 2 10 (replicate 16 0) 16 started
                  = Inr (0, out, s')
          \<and> flash_op_result s' = LFS_ERR_IO)
   \<and> (\<exists>s'. littlefs_api_erase failing_flash_platform cfg0 5 started = Inr (0, s')
          \<and> flash_op_result s' = LFS_ERR_IO)"
proof -
  have len: "unat (16 :: 32 word) \<le> length (replicate 16 (x :: byte))" for x
    by simp
  have w: "fst (esp_partition_write failing_flash_platform p a data n d) \<noteq> 0"
    and r: "fst (esp_partition_read failing_flash_platform p a n d) \<noteq> 0"
    and e: "fst (esp_partition_erase_range failing_flash_platform p a n d) \<noteq> 0"
    for p a data n d
    by (simp_all add: failing_flash_platform_def ESP_FAIL_def)
  have "\<exists>s'. littlefs_api_prog failing_flash_platform cfg0 2 10 (replicate 16 170) 16 started
              = Inr (0, s')
          \<and> flash_op_result s' = LFS_ERR_IO"
    using prog_result [OF started_handle started_consistent failing_flash_heap_never_fails
        len [of 170], of cfg0 2 10] w
    by auto
  moreover have "\<exists>out s'. littlefs_api_read failing_flash_platform cfg0 2 10 (replicate 16 0) 16
                    started = Inr (0, out, s')
          \<and> flash_op_result s' = LFS_ERR_IO"
    using read_completes [OF started_handle started_consistent failing_flash_heap_never_fails
        len [of 0], of cfg0 2 10] r
    by auto
  moreover have "\<exists>s'. littlefs_api_erase failing_flash_platform cfg0 5 started = Inr (0, s')
          \<and> flash_op_result s' = LFS_ERR_IO"
    using erase_result [OF started_handle, of failing_flash_platform cfg0 5] e by auto
  ultimately show ?thesis
    using w by (simp add: ESP_OK_def)
qed

text \<open>
  C2. While the task was never started (the handle is absent), each of the three entry
  points returns \<open>LFS_ERR_IO\<close>, a negative code, and logs no event: it neither notifies
  the task nor waits for the semaphore.
\<close>

theorem not_started_reports_io_error:
  assumes "flash_proxy_task_handle s = None"
  shows "(\<exists>s'. littlefs_api_read P c block off buffer sz s = Inr (LFS_ERR_IO, buffer, s')
              \<and> trace s' = trace s)
       \<and> (\<exists>s'. littlefs_api_prog P c block off buffer sz s = Inr (LFS_ERR_IO, s')
              \<and> trace s' = trace s)
       \<and> (\<exists>s'. littlefs_api_erase P c block s = Inr (LFS_ERR_IO, s') \<and> trace s' = trace s)
       \<and> LFS_ERR_IO < 0"
  using assms
  by (simp add: read_not_started prog_not_started erase_not_started LFS_ERR_IO_def)

text \<open>At program start, on the byte-array flash.\<close>

theorem not_started_reports_io_error_witness:
  "flash_proxy_task_handle boot = None
   \<and> (\<exists>s'. littlefs_api_read ram_platform cfg0 2 10 (replicate 16 0) 16 boot
              = Inr (LFS_ERR_IO, replicate 16 0, s') \<and> trace s' = trace boot)
   \<and> (\<exists>s'. littlefs_api_prog ram_platform cfg0 2 10 (replicate 16 0) 16 boot
              = Inr (LFS_ERR_IO, s') \<and> trace s' = trace boot)
   \<and> (\<exists>s'. littlefs_api_erase ram_platform cfg0 2 boot = Inr (LFS_ERR_IO, s')
              \<and> trace s' = trace boot)"
proof -
  have h: "flash_proxy_task_handle boot = None"
    by (simp add: boot_def initial_state_def)
  show ?thesis
    using h not_started_reports_io_error [OF h, of ram_platform cfg0 2 10 "replicate 16 0" 16]
    by simp
qed

text \<open>
  C3. A read or program call for block \<open>block\<close> and offset \<open>off\<close> that composes its
  request leaves \<open>block * block_size + off\<close> in \<open>part_off\<close>. The arithmetic is that of
  \<open>uint32_t\<close>; where the sum does not exceed 32 bits, which is so for every offset
  inside a device, it is the sum of the numbers.
\<close>

theorem request_offset:
  assumes "flash_proxy_task_handle s \<noteq> None"
  shows "(\<forall>r out s'. littlefs_api_read P c block off buffer sz s = Inr (r, out, s') \<longrightarrow>
            op_part_off (current_flash_op s') = block * block_size c + off)
       \<and> (\<forall>r s'. littlefs_api_prog P c block off buffer sz s = Inr (r, s') \<longrightarrow>
            op_part_off (current_flash_op s') = block * block_size c + off)
       \<and> (unat block * unat (block_size c) + unat off < 2 ^ 32 \<longrightarrow>
            unat (block * block_size c + off) = unat block * unat (block_size c) + unat off)"
  using read_started(2) [OF assms, of P c block off buffer sz]
    prog_started(2) [OF assms, of P c block off buffer sz]
    no_overflow_offset [of block "block_size c" off]
  by simp

text \<open>Block 2, offset 10, blocks of 4096 bytes: offset 8202.\<close>

theorem request_offset_witness:
  "flash_proxy_task_handle started \<noteq> None
   \<and> (\<exists>out s'. littlefs_api_read ram_platform cfg0 2 10 (replicate 16 0) 16 started
                  = Inr (0, out, s')
        \<and> op_part_off (current_flash_op s') = 8202)
   \<and> (\<exists>s'. littlefs_api_prog ram_platform cfg0 2 10 (replicate 16 0) 16 started = Inr (0, s')
        \<and> op_part_off (current_flash_op s') = 8202)
   \<and> unat (2 :: 32 word) * unat (block_size cfg0) + unat (10 :: 32 word) < 2 ^ 32
   \<and> unat (2 * block_size cfg0 + 10) = 8202"
proof -
  have len: "unat (16 :: 32 word) \<le> length (replicate 16 (0 :: byte))"
    by simp
  have dev: "length (fst (snd (esp_partition_read ram_platform (efs_partition (cfg_context cfg0))
               (2 * block_size cfg0 + 10) 16 (flash started)))) = unat (16 :: 32 word)"
    by (simp add: ram_platform_def ram_read_def)
  obtain out s1 where
    r: "littlefs_api_read ram_platform cfg0 2 10 (replicate 16 0) 16 started = Inr (0, out, s1)"
    using read_result [OF started_handle started_consistent ram_heap_never_fails len dev]
    by blast
  obtain s2 where
    p: "littlefs_api_prog ram_platform cfg0 2 10 (replicate 16 0) 16 started = Inr (0, s2)"
    using prog_result [OF started_handle started_consistent ram_heap_never_fails len]
    by blast
  have "op_part_off (current_flash_op s1) = 8202"
    and "op_part_off (current_flash_op s2) = 8202"
    and "unat (2 * block_size cfg0 + 10) = 8202"
    using request_offset [OF started_handle, of ram_platform cfg0 2 10 "replicate 16 0" 16] r p
    by (simp_all add: cfg0_def)
  then show ?thesis
    using started_handle r p by (simp add: cfg0_def)
qed



text \<open>
  C5. The claim, for every \<open>N \<ge> 1\<close> one task and one semaphore, fails where
  \<open>xTaskCreate\<close> fails: the handle stays absent, and the next invocation creates a
  semaphore again. On a kernel that has no memory for the task at the first invocation,
  two invocations call \<open>xSemaphoreCreateBinary\<close> twice and hold two semaphores in turn.
\<close>

theorem start_twice_two_semaphores:
  "flash_proxy_task_handle (start_flash_proxy_task flaky_task_platform boot) = None
   \<and> operation_done_sem (start_flash_proxy_task flaky_task_platform boot) = Some 1
   \<and> operation_done_sem ((start_flash_proxy_task flaky_task_platform ^^ 2) boot) = Some 3
   \<and> flash_proxy_task_handle ((start_flash_proxy_task flaky_task_platform ^^ 2) boot) = Some 4
   \<and> count_list (trace ((start_flash_proxy_task flaky_task_platform ^^ 2) boot))
        SemaphoreCreateBinary = 2"
  by (simp add: numeral_2_eq_2 start_flash_proxy_task_def flaky_task_platform_def
      ram_platform_def boot_def initial_state_def)

text \<open>
  C5, as amended. \<open>start_flash_proxy_task\<close> changes nothing once the handle is set.
  So when the first of \<open>N \<ge> 1\<close> invocations gets its semaphore and its task, the
  \<open>N\<close> invocations call \<open>xSemaphoreCreateBinary\<close> and \<open>xTaskCreate\<close> once each and
  leave that semaphore and that task in the state; and whenever the first invocation
  sets the handle, \<open>N\<close> invocations are one invocation.
\<close>

theorem start_once:
  "(flash_proxy_task_handle s \<noteq> None \<longrightarrow> start_flash_proxy_task P s = s)
   \<and> (1 \<le> N \<longrightarrow> flash_proxy_task_handle s = None \<longrightarrow>
        xSemaphoreCreateBinary P (os s) = (Some sem, o1) \<longrightarrow>
        xTaskCreate P o1 = (Some h, o2) \<longrightarrow>
        (start_flash_proxy_task P ^^ N) s =
          s\<lparr>operation_done_sem := Some sem, flash_proxy_task_handle := Some h, os := o2,
            trace := trace s @ [SemaphoreCreateBinary, TaskCreate]\<rparr>)
   \<and> (1 \<le> N \<longrightarrow> flash_proxy_task_handle (start_flash_proxy_task P s) \<noteq> None \<longrightarrow>
        (start_flash_proxy_task P ^^ N) s = start_flash_proxy_task P s)"
proof -
  have rep: "(start_flash_proxy_task P ^^ N) s = start_flash_proxy_task P s"
    if pos: "1 \<le> N" and set: "flash_proxy_task_handle (start_flash_proxy_task P s) \<noteq> None"
  proof -
    obtain n where "N = Suc n"
      using pos by (cases N) simp_all
    then show ?thesis
      using start_repeated [OF set, of n] by simp
  qed
  have both: "(start_flash_proxy_task P ^^ N) s =
          s\<lparr>operation_done_sem := Some sem, flash_proxy_task_handle := Some h, os := o2,
            trace := trace s @ [SemaphoreCreateBinary, TaskCreate]\<rparr>"
    if pos: "1 \<le> N" and none: "flash_proxy_task_handle s = None"
      and cs: "xSemaphoreCreateBinary P (os s) = (Some sem, o1)"
      and ct: "xTaskCreate P o1 = (Some h, o2)"
  proof -
    have one: "start_flash_proxy_task P s =
          s\<lparr>operation_done_sem := Some sem, flash_proxy_task_handle := Some h, os := o2,
            trace := trace s @ [SemaphoreCreateBinary, TaskCreate]\<rparr>"
      using start_result [OF none cs ct] .
    then have "flash_proxy_task_handle (start_flash_proxy_task P s) \<noteq> None"
      by simp
    then show ?thesis
      using rep [OF pos] one by simp
  qed
  show ?thesis
    using rep both start_when_started [of s P] by blast
qed

text \<open>Three invocations at program start, on a kernel that has the memory.\<close>

theorem start_once_witness:
  "flash_proxy_task_handle started \<noteq> None
   \<and> start_flash_proxy_task ram_platform started = started
   \<and> (1 :: nat) \<le> 3
   \<and> flash_proxy_task_handle boot = None
   \<and> xSemaphoreCreateBinary ram_platform (os boot) = (Some 1, 1)
   \<and> xTaskCreate ram_platform 1 = (Some 2, 2)
   \<and> (start_flash_proxy_task ram_platform ^^ 3) boot =
       boot\<lparr>operation_done_sem := Some 1, flash_proxy_task_handle := Some 2, os := 2,
            trace := trace boot @ [SemaphoreCreateBinary, TaskCreate]\<rparr>
   \<and> flash_proxy_task_handle (start_flash_proxy_task ram_platform boot) \<noteq> None
   \<and> (start_flash_proxy_task ram_platform ^^ 3) boot = start_flash_proxy_task ram_platform boot"
proof -
  have b: "flash_proxy_task_handle boot = None"
    by (simp add: boot_def initial_state_def)
  have n: "(1 :: nat) \<le> 3"
    by simp
  have cs: "xSemaphoreCreateBinary ram_platform (os boot) = (Some 1, 1)"
    and ct: "xTaskCreate ram_platform 1 = (Some 2, 2)"
    by (simp_all add: ram_platform_def boot_def initial_state_def)
  have st: "flash_proxy_task_handle (start_flash_proxy_task ram_platform boot) \<noteq> None"
    using started_handle by (simp add: started_def)
  have all: "(start_flash_proxy_task ram_platform ^^ 3) boot =
       boot\<lparr>operation_done_sem := Some 1, flash_proxy_task_handle := Some 2, os := 2,
            trace := trace boot @ [SemaphoreCreateBinary, TaskCreate]\<rparr>"
    using start_once [of boot ram_platform 3 1 1 2 2] b n cs ct by blast
  have same: "(start_flash_proxy_task ram_platform ^^ 3) boot
                = start_flash_proxy_task ram_platform boot"
    using start_once [of boot ram_platform 3 1 1 2 2] n st by blast
  have idle: "start_flash_proxy_task ram_platform started = started"
    using start_once [of started ram_platform 3 1 1 2 2] started_handle by blast
  show ?thesis
    using started_handle idle n b cs ct all st same by blast
qed

text \<open>
  C6. After \<open>ensure_flash_proxy_buf_size sz\<close> the recorded capacity is at least \<open>sz\<close>.
  From a state in which a null scratch pointer has capacity 0, as at program start, any
  sequence of read, program and erase calls that return leaves a capacity that is not
  smaller, and a state of the same kind; and in such a state a request for less than the
  capacity changes nothing, pointer and capacity included.
\<close>

theorem scratch_capacity_grows:
  "sz \<le> flash_proxy_buf_size (ensure_flash_proxy_buf_size P sz s)
   \<and> ((flash_proxy_buf s = NULL \<longrightarrow> flash_proxy_buf_size s = 0) \<longrightarrow>
        (\<forall>s'. run P xs s = Inr s' \<longrightarrow>
           flash_proxy_buf_size s \<le> flash_proxy_buf_size s'
           \<and> (flash_proxy_buf s' = NULL \<longrightarrow> flash_proxy_buf_size s' = 0))
        \<and> (sz < flash_proxy_buf_size s \<longrightarrow> ensure_flash_proxy_buf_size P sz s = s))"
proof -
  have "ensure_flash_proxy_buf_size P sz s = s"
    if "flash_proxy_buf s = NULL \<longrightarrow> flash_proxy_buf_size s = 0" "sz < flash_proxy_buf_size s"
  proof -
    have "flash_proxy_buf_size s \<noteq> 0"
      using that(2) by (auto simp add: word_less_nat_alt)
    then show ?thesis
      using that ensure_unchanged [of s sz P] by auto
  qed
  then show ?thesis
    using ensure_capacity [of sz P s] run_capacity [of s P xs] by blast
qed

text \<open>A program call of 16 bytes, then a read of 8 bytes.\<close>

theorem scratch_capacity_grows_witness:
  "(8 :: 32 word) \<le> flash_proxy_buf_size (ensure_flash_proxy_buf_size ram_platform 8 started)
   \<and> flash_proxy_buf_size started = 0
   \<and> (\<exists>s1 s2. run ram_platform [Prog cfg0 2 10 (replicate 16 170) 16] started = Inr s1
          \<and> run ram_platform [Read cfg0 2 10 (replicate 8 0) 8] s1 = Inr s2
          \<and> flash_proxy_buf_size started \<le> flash_proxy_buf_size s1
          \<and> flash_proxy_buf_size s1 \<le> flash_proxy_buf_size s2
          \<and> 8 < flash_proxy_buf_size s1
          \<and> ensure_flash_proxy_buf_size ram_platform 8 s1 = s1)"
proof -
  have len16: "unat (16 :: 32 word) \<le> length (replicate 16 (170 :: byte))"
    and len8: "unat (8 :: 32 word) \<le> length (replicate 8 (0 :: byte))"
    by simp_all
  have inv0: "flash_proxy_buf started = NULL \<longrightarrow> flash_proxy_buf_size started = 0"
    by (simp add: started_buf)
  obtain s1 where
    p: "littlefs_api_prog ram_platform cfg0 2 10 (replicate 16 170) 16 started = Inr (0, s1)"
    and h1: "flash_proxy_task_handle s1 = flash_proxy_task_handle started"
    and c1: "scratch_consistent s1"
    and cap: "16 \<le> flash_proxy_buf_size s1"
    using prog_result [OF started_handle started_consistent ram_heap_never_fails len16,
        of cfg0 2 10]
    by blast
  have st1: "flash_proxy_task_handle s1 \<noteq> None"
    using h1 started_handle by simp
  obtain out s2 where
    r: "littlefs_api_read ram_platform cfg0 2 10 (replicate 8 0) 8 s1 = Inr (0, out, s2)"
    using read_completes [OF st1 c1 ram_heap_never_fails len8, of cfg0 2 10] by blast
  have run1: "run ram_platform [Prog cfg0 2 10 (replicate 16 170) 16] started = Inr s1"
    using p by simp
  have run2: "run ram_platform [Read cfg0 2 10 (replicate 8 0) 8] s1 = Inr s2"
    using r by simp
  have big: "8 < flash_proxy_buf_size s1"
    using cap by (simp add: word_le_nat_alt word_less_nat_alt)
  have g1: "flash_proxy_buf_size started \<le> flash_proxy_buf_size s1"
    and inv1: "flash_proxy_buf s1 = NULL \<longrightarrow> flash_proxy_buf_size s1 = 0"
    using scratch_capacity_grows
      [of 8 ram_platform started "[Prog cfg0 2 10 (replicate 16 170) 16]"] inv0 run1
    by blast+
  have g2: "flash_proxy_buf_size s1 \<le> flash_proxy_buf_size s2"
    and same: "ensure_flash_proxy_buf_size ram_platform 8 s1 = s1"
    using scratch_capacity_grows
      [of 8 ram_platform s1 "[Read cfg0 2 10 (replicate 8 0) 8]"] inv1 run2 big
    by blast+
  have first: "(8 :: 32 word) \<le> flash_proxy_buf_size (ensure_flash_proxy_buf_size ram_platform 8 started)"
    using scratch_capacity_grows [of 8 ram_platform started "[]"] by blast
  show ?thesis
    using first started_buf(2) run1 run2 g1 g2 big same by blast
qed

text \<open>
  C7. Claim: a read or program call for which the allocator cannot provide the scratch
  buffer fails with the I/O-class error. The code does not check what the allocator
  returns: \<open>ensure_flash_proxy_buf_size\<close> stores the null pointer and records the size,
  the read call hands the null pointer to the device, and the \<open>memcpy\<close> of either call
  goes through the null pointer. With an exhausted heap, neither call returns
  \<open>LFS_ERR_IO\<close>.
\<close>

theorem allocation_failure_not_reported:
  "fst (heap_caps_malloc no_heap_platform 16 (os started)) = NULL
   \<and> littlefs_api_read no_heap_platform cfg0 2 10 (replicate 16 0) 16 started
       = Inl NullPointerAccess
   \<and> littlefs_api_prog no_heap_platform cfg0 2 10 (replicate 16 170) 16 started
       = Inl NullPointerAccess"
proof -
  have n: "flash_proxy_buf (ensure_flash_proxy_buf_size no_heap_platform 16 started) = NULL"
    by (simp add: ensure_flash_proxy_buf_size_def started_buf no_heap_platform_def)
  have z: "(16 :: 32 word) \<noteq> 0"
    by simp
  show ?thesis
    using read_null_fault [OF started_handle n z] prog_null_fault [OF started_handle n z]
    by (simp add: no_heap_platform_def)
qed



text \<open>
  C9. One iteration of the task issues the device call of the request's kind, with the
  request's arguments, and no other: read, write and erase issue one device call, any
  other kind issues none and counts as a failure. The result recorded is 0 when the
  status is 0 and \<open>LFS_ERR_IO\<close> otherwise.
\<close>

theorem flash_proxy_task_dispatch:
  "(op_type (current_flash_op s) = FLASH_OP_READ \<longrightarrow>
      trace (flash_proxy_task P s) =
        trace s @ [TaskNotifyTake,
                   PartitionRead (op_partition (current_flash_op s))
                     (op_part_off (current_flash_op s)) (op_buffer (current_flash_op s))
                     (op_size (current_flash_op s)),
                   SemaphoreGive]
      \<and> flash_op_result (flash_proxy_task P s) =
          (if fst (esp_partition_read P (op_partition (current_flash_op s))
                     (op_part_off (current_flash_op s)) (op_size (current_flash_op s))
                     (flash s)) \<noteq> 0
           then LFS_ERR_IO else 0))
   \<and> (op_type (current_flash_op s) = FLASH_OP_WRITE \<longrightarrow>
      trace (flash_proxy_task P s) =
        trace s @ [TaskNotifyTake,
                   PartitionWrite (op_partition (current_flash_op s))
                     (op_part_off (current_flash_op s)) (op_buffer (current_flash_op s))
                     (op_size (current_flash_op s)),
                   SemaphoreGive]
      \<and> flash_op_result (flash_proxy_task P s) =
          (if fst (esp_partition_write P (op_partition (current_flash_op s))
                     (op_part_off (current_flash_op s))
                     (if op_buffer (current_flash_op s) \<noteq> NULL
                         \<and> op_buffer (current_flash_op s) = flash_proxy_buf s
                      then take (unat (op_size (current_flash_op s))) (scratch s) else [])
                     (op_size (current_flash_op s)) (flash s)) \<noteq> 0
           then LFS_ERR_IO else 0))
   \<and> (op_type (current_flash_op s) = FLASH_OP_ERASE \<longrightarrow>
      trace (flash_proxy_task P s) =
        trace s @ [TaskNotifyTake,
                   PartitionEraseRange (op_partition (current_flash_op s))
                     (op_part_off (current_flash_op s)) (op_size (current_flash_op s)),
                   SemaphoreGive]
      \<and> flash_op_result (flash_proxy_task P s) =
          (if fst (esp_partition_erase_range P (op_partition (current_flash_op s))
                     (op_part_off (current_flash_op s)) (op_size (current_flash_op s))
                     (flash s)) \<noteq> 0
           then LFS_ERR_IO else 0))
   \<and> (op_type (current_flash_op s) \<notin> {FLASH_OP_READ, FLASH_OP_WRITE, FLASH_OP_ERASE} \<longrightarrow>
      trace (flash_proxy_task P s) = trace s @ [TaskNotifyTake, SemaphoreGive]
      \<and> flash_op_result (flash_proxy_task P s) = LFS_ERR_IO
      \<and> flash (flash_proxy_task P s) = flash s)
   \<and> length (device_calls (trace (flash_proxy_task P s)))
       = length (device_calls (trace s))
         + (if op_type (current_flash_op s) \<in> {FLASH_OP_READ, FLASH_OP_WRITE, FLASH_OP_ERASE}
            then 1 else 0)"
proof -
  have "length (device_calls (trace (flash_proxy_task P s)))
       = length (device_calls (trace s))
         + (if op_type (current_flash_op s) \<in> {FLASH_OP_READ, FLASH_OP_WRITE, FLASH_OP_ERASE}
            then 1 else 0)"
    using flash_proxy_task_read [of s P] flash_proxy_task_write [of s P]
      flash_proxy_task_erase [of s P] flash_proxy_task_other [of s P]
    by (cases "op_type (current_flash_op s)") (simp_all add: device_calls_def)
  then show ?thesis
    using flash_proxy_task_read [of s P] flash_proxy_task_write [of s P]
      flash_proxy_task_erase [of s P] flash_proxy_task_other [of s P]
    by blast
qed

text \<open>The four kinds, the write on a device that fails.\<close>

theorem flash_proxy_task_dispatch_witness:
  "op_type (current_flash_op (request FLASH_OP_READ)) = FLASH_OP_READ
   \<and> trace (flash_proxy_task ram_platform (request FLASH_OP_READ)) =
       [SemaphoreCreateBinary, TaskCreate, TaskNotifyTake,
        PartitionRead 0x10000 20480 NULL 4096, SemaphoreGive]
   \<and> flash_op_result (flash_proxy_task ram_platform (request FLASH_OP_READ)) = 0
   \<and> op_type (current_flash_op (request FLASH_OP_WRITE)) = FLASH_OP_WRITE
   \<and> trace (flash_proxy_task failing_flash_platform (request FLASH_OP_WRITE)) =
       [SemaphoreCreateBinary, TaskCreate, TaskNotifyTake,
        PartitionWrite 0x10000 20480 NULL 4096, SemaphoreGive]
   \<and> flash_op_result (flash_proxy_task failing_flash_platform (request FLASH_OP_WRITE))
       = LFS_ERR_IO
   \<and> op_type (current_flash_op (request FLASH_OP_ERASE)) = FLASH_OP_ERASE
   \<and> trace (flash_proxy_task ram_platform (request FLASH_OP_ERASE)) =
       [SemaphoreCreateBinary, TaskCreate, TaskNotifyTake,
        PartitionEraseRange 0x10000 20480 4096, SemaphoreGive]
   \<and> flash_op_result (flash_proxy_task ram_platform (request FLASH_OP_ERASE)) = 0
   \<and> op_type (current_flash_op (request FLASH_OP_INVALID))
       \<notin> {FLASH_OP_READ, FLASH_OP_WRITE, FLASH_OP_ERASE}
   \<and> trace (flash_proxy_task ram_platform (request FLASH_OP_INVALID)) =
       [SemaphoreCreateBinary, TaskCreate, TaskNotifyTake, SemaphoreGive]
   \<and> flash_op_result (flash_proxy_task ram_platform (request FLASH_OP_INVALID)) = LFS_ERR_IO"
  using flash_proxy_task_dispatch [of "request FLASH_OP_READ" ram_platform]
    flash_proxy_task_dispatch [of "request FLASH_OP_WRITE" failing_flash_platform]
    flash_proxy_task_dispatch [of "request FLASH_OP_ERASE" ram_platform]
    flash_proxy_task_dispatch [of "request FLASH_OP_INVALID" ram_platform]
  by (simp add: request_def started_trace ram_platform_def ram_read_def ram_erase_range_def
      failing_flash_platform_def ESP_OK_def ESP_FAIL_def)

text \<open>
  C10. While the task was never started, an entry point returns its error and the state
  it was given: the request slot, the scratch pointer, the recorded capacity and every
  other variable are as before.
\<close>

theorem not_started_leaves_state:
  assumes "flash_proxy_task_handle s = None"
  shows "littlefs_api_read P c block off buffer sz s = Inr (LFS_ERR_IO, buffer, s)
       \<and> littlefs_api_prog P c block off buffer sz s = Inr (LFS_ERR_IO, s)
       \<and> littlefs_api_erase P c block s = Inr (LFS_ERR_IO, s)"
  using assms by (simp add: read_not_started prog_not_started erase_not_started)

text \<open>At program start.\<close>

theorem not_started_leaves_state_witness:
  "flash_proxy_task_handle boot = None
   \<and> littlefs_api_read ram_platform cfg0 2 10 (replicate 16 0) 16 boot
       = Inr (LFS_ERR_IO, replicate 16 0, boot)
   \<and> littlefs_api_prog ram_platform cfg0 2 10 (replicate 16 0) 16 boot = Inr (LFS_ERR_IO, boot)
   \<and> littlefs_api_erase ram_platform cfg0 2 boot = Inr (LFS_ERR_IO, boot)
   \<and> current_flash_op boot =
       \<lparr>op_type = FLASH_OP_NONE, op_partition = NULL, op_part_off = 0, op_buffer = NULL,
        op_size = 0\<rparr>
   \<and> flash_proxy_buf boot = NULL \<and> flash_proxy_buf_size boot = 0"
proof -
  have h: "flash_proxy_task_handle boot = None"
    by (simp add: boot_def initial_state_def)
  show ?thesis
    using h not_started_leaves_state [OF h, of ram_platform cfg0 2 10 "replicate 16 0" 16]
    by (simp add: boot_def initial_state_def)
qed

end
